theory Spec2Isabelle
  imports Complex_Main "HOL-Library.Sublist"
begin

section \<open>JavaScript values shared by the client and the relay route\<close>

text \<open>
  A thrown JavaScript value is either an \<open>Error\<close> instance, of which the handlers only
  read \<open>message\<close>, or some other value (\<open>error instanceof Error\<close> is false).
\<close>

datatype js_exn = JsError string | NonError

text \<open>
  A parsed JSON value. An object keeps its members in the order of the text; a key that
  occurs twice takes its last value, as \<open>JSON.parse\<close> has it.
\<close>

datatype json =
    JNull
  | JBool bool
  | JNum rat
  | JStr string
  | JArr "json list"
  | JObj "(string \<times> json) list"

text \<open>Property access on a JSON value; \<open>None\<close> is JavaScript's \<open>undefined\<close>.\<close>

fun get_property :: "json \<Rightarrow> string \<Rightarrow> json option" where
  "get_property (JObj kvs) k = map_of (rev kvs) k"
| "get_property _ k = None"

text \<open>Truthiness of a JSON value, and \<open>Array.isArray\<close>.\<close>

fun truthy :: "json \<Rightarrow> bool" where
  "truthy JNull = False"
| "truthy (JBool b) = b"
| "truthy (JNum n) = (n \<noteq> 0)"
| "truthy (JStr s) = (s \<noteq> [])"
| "truthy (JArr _) = True"
| "truthy (JObj _) = True"

fun isArray :: "json \<Rightarrow> bool" where
  "isArray (JArr _) = True"
| "isArray _ = False"

text \<open>\<open>String.prototype.includes\<close>: the pattern occurs as a contiguous substring.\<close>

fun str_includes :: "string \<Rightarrow> string \<Rightarrow> bool" where
  "str_includes [] p = (p = [])"
| "str_includes (c # cs) p = (prefix p (c # cs) \<or> str_includes cs p)"

text \<open>\<open>response.ok\<close>: the status is in the range 200 to 299.\<close>

definition ok :: "nat \<Rightarrow> bool" where
  "ok st = (200 \<le> st \<and> st \<le> 299)"


section \<open>The chat relay route: \<open>POST /api/chat\<close>\<close>

definition SYSTEM_PROMPT :: string where
  \<open>SYSTEM_PROMPT =
     ''You are a knowledgeable and friendly Cloud Advisor specializing in Google Cloud Platform (GCP) and Google Workspace solutions.\<newline>'' @
     ''\<newline>'' @
     ''Your expertise includes:\<newline>'' @
     ''- Google Cloud Platform services (Compute Engine, Cloud Storage, BigQuery, Cloud Run, Kubernetes Engine, etc.)\<newline>'' @
     ''- Google Workspace products (Gmail, Drive, Docs, Sheets, Meet, Admin Console)\<newline>'' @
     ''- Cloud migration strategies and best practices\<newline>'' @
     ''- Infrastructure modernization and optimization\<newline>'' @
     ''- Cloud security and compliance\<newline>'' @
     ''- Cost optimization and billing management\<newline>'' @
     ''- DevOps practices and CI/CD pipelines\<newline>'' @
     ''- Data analytics and machine learning on GCP\<newline>'' @
     ''\<newline>'' @
     ''Guidelines for your responses:\<newline>'' @
     ''1. Provide clear, accurate, and actionable advice\<newline>'' @
     ''2. Break down complex concepts into understandable explanations\<newline>'' @
     ''3. Include relevant examples when helpful\<newline>'' @
     ''4. Mention specific Google Cloud products or services when applicable\<newline>'' @
     ''5. Offer step-by-step guidance for implementation questions\<newline>'' @
     ''6. Highlight best practices and potential pitfalls\<newline>'' @
     ''7. Be honest about limitations or when a question is outside your expertise\<newline>'' @
     ''8. Keep responses concise but comprehensive\<newline>'' @
     ''\<newline>'' @
     ''When users ask about:\<newline>'' @
     ''- Pricing: Direct them to Google Cloud's pricing calculator and mention that costs vary by usage\<newline>'' @
     ''- Certifications: Provide information about Google Cloud certification paths\<newline>'' @
     ''- Comparisons: Give balanced comparisons with other cloud providers when asked\<newline>'' @
     ''- Security: Emphasize Google Cloud's security features and compliance certifications\<newline>'' @
     ''\<newline>'' @
     ''Remember: You're helping businesses and individuals make informed decisions about cloud technology. Be professional, helpful, and encouraging.''\<close>

text \<open>The options object handed to \<open>streamText\<close>.\<close>

record upstream_request =
  req_model :: string
  req_system :: string
  req_messages :: json
  req_temperature :: rat

text \<open>
  The route answers either with \<open>new Response(JSON.stringify(v), {status, headers})\<close> or
  with \<open>result.toTextStreamResponse()\<close>, the SDK's response whose body is the text of
  the result, streamed as the chunks the model generates.
\<close>

datatype route_response =
    JsonResponse nat "(string \<times> string) list" json
  | TextStreamResponse "string list"

fun response_status :: "route_response \<Rightarrow> nat option" where
  "response_status (JsonResponse st _ _) = Some st"
| "response_status (TextStreamResponse _) = None"

fun error_body :: "route_response \<Rightarrow> string option" where
  "error_body (JsonResponse _ _ (JObj [(k, JStr msg)])) = (if k = ''error'' then Some msg else None)"
| "error_body _ = None"

definition json_headers :: "(string \<times> string) list" where
  "json_headers = [(''Content-Type'', ''application/json'')]"

text \<open>
  \<open>const { messages } = await req.json()\<close>: destructuring \<open>null\<close> throws a
  \<open>TypeError\<close>; every other JSON value is read as an object, and a value without
  the property gives \<open>undefined\<close>.
\<close>

definition destructure_null_message :: string where
  "destructure_null_message =
     ''Cannot destructure property 'messages' of '(intermediate value)' as it is null.''"

fun destructure_messages :: "json \<Rightarrow> js_exn + json option" where
  "destructure_messages JNull = Inl (JsError destructure_null_message)"
| "destructure_messages v = Inr (get_property v ''messages'')"

text \<open>The \<open>catch\<close> block of the route.\<close>

definition POST_catch :: "js_exn \<Rightarrow> route_response" where
  "POST_catch e =
     (case e of
        JsError msg \<Rightarrow>
          if str_includes msg ''API key''
          then JsonResponse 500 json_headers
                 (JObj [(''error'', JStr ''API key configuration error. Please check your GEMINI_API_KEY.'')])
          else JsonResponse 500 json_headers
                 (JObj [(''error'', JStr ''An error occurred while processing your request.'')])
      | NonError \<Rightarrow>
          JsonResponse 500 json_headers
            (JObj [(''error'', JStr ''An error occurred while processing your request.'')]))"

definition invalid_request :: "route_response" where
  "invalid_request =
     JsonResponse 400 json_headers (JObj [(''error'', JStr ''Invalid request: messages array required'')])"

text \<open>
  The handler. \<open>body\<close> is what \<open>req.json()\<close> settles to (\<open>Inl\<close> when the body is not
  JSON), \<open>streamText\<close> stands for the SDK call \<open>streamText({model: google(...), ...})\<close>,
  which either throws or returns a result (the chunks of generated text). An \<open>undefined\<close> \<open>messages\<close> is falsy and
  takes the validation branch. The second component lists the requests handed to the
  SDK.
\<close>

definition POST ::
  "(upstream_request \<Rightarrow> js_exn + string list) \<Rightarrow> js_exn + json \<Rightarrow> route_response \<times> upstream_request list"
where
  "POST streamText body =
     (case body of
        Inl e \<Rightarrow> (POST_catch e, [])
      | Inr v \<Rightarrow>
          (case destructure_messages v of
             Inl e \<Rightarrow> (POST_catch e, [])
           | Inr None \<Rightarrow> (invalid_request, [])
           | Inr (Some messages) \<Rightarrow>
               if \<not> truthy messages \<or> \<not> isArray messages
               then (invalid_request, [])
               else
                 let rq = \<lparr>req_model = ''gemini-2.5-flash'', req_system = SYSTEM_PROMPT,
                           req_messages = messages, req_temperature = 7 / 10\<rparr>
                 in (case streamText rq of
                       Inl e \<Rightarrow> (POST_catch e, [rq])
                     | Inr result \<Rightarrow> (TextStreamResponse result, [rq]))))"


section \<open>The chat input component\<close>










section \<open>The API client of the conversation backend\<close>

datatype role = User | Assistant

fun role_str :: "role \<Rightarrow> string" where
  "role_str User = ''user''"
| "role_str Assistant = ''assistant''"

text \<open>
  The interfaces \<open>Conversation\<close>, \<open>Message\<close> and \<open>ChatMessage\<close>; the fields carry a prefix
  since field names are global (\<open>conv_id\<close> is \<open>Conversation.id\<close>, \<open>cm_id\<close> is
  \<open>ChatMessage.id\<close>).
\<close>

record Conversation =
  conv_id :: string
  conv_title :: "string option"
  conv_created_at :: string
  conv_updated_at :: string

record Message =
  msg_id :: nat
  msg_role :: role
  msg_content :: string
  msg_created_at :: string

record ChatMessage =
  cm_id :: string
  cm_role :: role
  cm_content :: string

text \<open>
  A \<open>fetch\<close> call: the request, with \<open>rq_body\<close> the value given to \<open>JSON.stringify\<close>.
  What comes back is either a rejection (the network failed) or a response with its
  status and what \<open>response.json()\<close> settles to, typed as the client declares it.
\<close>

record http_request =
  rq_method :: string
  rq_url :: string
  rq_headers :: "(string \<times> string) list"
  rq_body :: "json option"

datatype 'a reply = FetchRejects js_exn | Response nat "js_exn + 'a"

text \<open>\<open>process.env.NEXT_PUBLIC_BACKEND_URL || 'http://localhost:8000'\<close>\<close>

definition BACKEND_URL :: "string option \<Rightarrow> string" where
  "BACKEND_URL var =
     (case var of
        None \<Rightarrow> ''http://localhost:8000''
      | Some u \<Rightarrow> if u \<noteq> [] then u else ''http://localhost:8000'')"

text \<open>
  Each client function gives the request it sends and what its promise settles to:
  \<open>Inl\<close> when \<open>fetch\<close> rejects, when the response is not ok, or when reading the JSON
  fails.
\<close>

definition settle :: "string \<Rightarrow> 'a reply \<Rightarrow> js_exn + 'a" where
  "settle failure r =
     (case r of
        FetchRejects e \<Rightarrow> Inl e
      | Response st j \<Rightarrow> if \<not> ok st then Inl (JsError failure) else j)"

definition getConversations ::
  "string \<Rightarrow> Conversation list reply \<Rightarrow> http_request \<times> (js_exn + Conversation list)" where
  "getConversations base r =
     (\<lparr>rq_method = ''GET'', rq_url = base @ ''/api/conversations'',
       rq_headers = json_headers, rq_body = None\<rparr>,
      settle ''Failed to fetch conversations'' r)"

text \<open>\<open>title || null\<close>: an omitted title (\<open>None\<close>) and the empty string are falsy.\<close>

definition title_or_null :: "string option \<Rightarrow> json" where
  "title_or_null title =
     (case title of None \<Rightarrow> JNull | Some t \<Rightarrow> if t \<noteq> [] then JStr t else JNull)"

definition createConversation ::
  "string \<Rightarrow> string option \<Rightarrow> Conversation reply \<Rightarrow> http_request \<times> (js_exn + Conversation)" where
  "createConversation base title r =
     (\<lparr>rq_method = ''POST'', rq_url = base @ ''/api/conversations'',
       rq_headers = json_headers,
       rq_body = Some (JObj [(''title'', title_or_null title)])\<rparr>,
      settle ''Failed to create conversation'' r)"

definition getConversation ::
  "string \<Rightarrow> string \<Rightarrow> (Conversation \<times> Message list) reply
     \<Rightarrow> http_request \<times> (js_exn + Conversation \<times> Message list)" where
  "getConversation base cid r =
     (\<lparr>rq_method = ''GET'', rq_url = base @ ''/api/conversations/'' @ cid,
       rq_headers = json_headers, rq_body = None\<rparr>,
      settle ''Failed to fetch conversation'' r)"

text \<open>\<open>deleteConversation\<close> reads no body: it settles to nothing when the response is ok.\<close>

definition deleteConversation ::
  "string \<Rightarrow> string \<Rightarrow> unit reply \<Rightarrow> http_request \<times> (js_exn + unit)" where
  "deleteConversation base cid r =
     (\<lparr>rq_method = ''DELETE'', rq_url = base @ ''/api/conversations/'' @ cid,
       rq_headers = [], rq_body = None\<rparr>,
      (case r of
         FetchRejects e \<Rightarrow> Inl e
       | Response st _ \<Rightarrow> if \<not> ok st then Inl (JsError ''Failed to delete conversation'') else Inr ()))"

definition message_json :: "role \<times> string \<Rightarrow> json" where
  "message_json m = JObj [(''role'', JStr (role_str (fst m))), (''content'', JStr (snd m))]"

definition addMessages ::
  "string \<Rightarrow> string \<Rightarrow> (role \<times> string) list \<Rightarrow> Message list reply
     \<Rightarrow> http_request \<times> (js_exn + Message list)" where
  "addMessages base conversationId msgs r =
     (\<lparr>rq_method = ''POST'',
       rq_url = base @ ''/api/conversations/'' @ conversationId @ ''/messages'',
       rq_headers = json_headers,
       rq_body = Some (JArr (map message_json msgs))\<rparr>,
      settle ''Failed to add messages'' r)"


section \<open>The page component: state, effects and \<open>submitMessage\<close>\<close>

text \<open>\<open>Number.prototype.toString\<close> on a non-negative integer: its decimal digits.\<close>

function toString :: "nat \<Rightarrow> string" where
  "toString n =
     (if n < 10 then [''0123456789'' ! n]
      else toString (n div 10) @ [''0123456789'' ! (n mod 10)])"
  by pat_completeness auto
termination
  by (relation "measure (\<lambda>n. n)") auto

declare toString.simps [simp del]

text \<open>The state hooks of \<open>Home\<close>.\<close>

record home =
  conversations :: "Conversation list"
  currentConversationId :: "string option"
  sidebarOpen :: bool
  isLoadingConversations :: bool
  backendAvailable :: bool
  messages :: "ChatMessage list"
  isChatLoading :: bool
  error :: "js_exn option"

text \<open>
  A run of a handler threads the component state, the network calls issued so far (each
  with the client function that issued it; \<open>ChatRelay\<close> is the \<open>fetch\<close> of \<open>/api/chat\<close>) and
  the transcripts handed to \<open>setMessages\<close>, one per call, in order: what the user sees
  rendered. Console output and toasts are left out.
\<close>

datatype api_call = GetConversations | CreateConversation | AddMessages | ChatRelay

record run =
  state :: home
  calls :: "(api_call \<times> http_request) list"
  renders :: "ChatMessage list list"

definition update_state :: "(home \<Rightarrow> home) \<Rightarrow> run \<Rightarrow> run" where
  "update_state f r = r\<lparr>state := f (state r)\<rparr>"

definition issue :: "api_call \<Rightarrow> http_request \<Rightarrow> run \<Rightarrow> run" where
  "issue c rq r = r\<lparr>calls := calls r @ [(c, rq)]\<rparr>"

text \<open>\<open>setMessages(prev => f(prev))\<close>; \<open>setMessages(v)\<close> is \<open>setMessages (\<lambda>_. v)\<close>.\<close>

definition setMessages :: "(ChatMessage list \<Rightarrow> ChatMessage list) \<Rightarrow> run \<Rightarrow> run" where
  "setMessages f r =
     r\<lparr>state := (state r)\<lparr>messages := f (messages (state r))\<rparr>,
       renders := renders r @ [f (messages (state r))]\<rparr>"

text \<open>
  What the outside world answers during one submission: the environment variable, the
  two readings of \<open>Date.now()\<close>, and the reply to each network call the handler can make.
  The body of the relay's response is \<open>None\<close> when \<open>response.body\<close> is null; otherwise it
  is the chunks \<open>reader.read()\<close> delivers, each as \<open>decoder.decode\<close> returns it, and how
  the stream ends: \<open>done\<close>, or a read that rejects. A response that delivers chunks for
  ever has no such description: on it the handler never leaves its loop, and nothing
  below speaks about it.
\<close>

datatype stream_end = Done | ReadRejects js_exn

datatype chat_reply =
    ChatFetchRejects js_exn
  | ChatResponse nat "(string list \<times> stream_end) option"

record env =
  NEXT_PUBLIC_BACKEND_URL :: "string option"
  now_user :: nat
  now_assistant :: nat
  create_reply :: "Conversation reply"
  list_reply :: "Conversation list reply"
  chat_reply :: chat_reply
  add_reply :: "Message list reply"
  reload_reply :: "Conversation list reply"

definition loadConversations :: "string \<Rightarrow> Conversation list reply \<Rightarrow> run \<Rightarrow> run" where
  "loadConversations base reply r =
     (let (rq, res) = getConversations base reply;
          r1 = issue GetConversations rq r
      in case res of
           Inr convs \<Rightarrow>
             update_state (\<lambda>s. s\<lparr>conversations := convs, backendAvailable := True,
                                 isLoadingConversations := False\<rparr>) r1
         | Inl err \<Rightarrow>
             update_state (\<lambda>s. s\<lparr>backendAvailable := False, isLoadingConversations := False\<rparr>) r1)"

text \<open>Truthiness of \<open>convId\<close>, a string or \<open>null\<close>.\<close>

fun truthy_id :: "string option \<Rightarrow> bool" where
  "truthy_id None = False"
| "truthy_id (Some c) = (c \<noteq> [])"

definition ChatMessage_json :: "ChatMessage \<Rightarrow> json" where
  "ChatMessage_json m =
     JObj [(''id'', JStr (cm_id m)), (''role'', JStr (role_str (cm_role m))),
           (''content'', JStr (cm_content m))]"

definition chat_request :: "ChatMessage list \<Rightarrow> http_request" where
  "chat_request updatedMessages =
     \<lparr>rq_method = ''POST'', rq_url = ''/api/chat'', rq_headers = json_headers,
      rq_body = Some (JObj [(''messages'', JArr (map ChatMessage_json updatedMessages))])\<rparr>"

text \<open>The update applied after every chunk.\<close>

definition update_content :: "string \<Rightarrow> string \<Rightarrow> ChatMessage list \<Rightarrow> ChatMessage list" where
  "update_content assistantId assistantContent prev =
     map (\<lambda>m. if cm_id m = assistantId then m\<lparr>cm_content := assistantContent\<rparr> else m) prev"

text \<open>The \<open>while (true)\<close> loop over the chunks the reader delivers before the stream ends.\<close>

fun read_loop :: "string \<Rightarrow> string \<Rightarrow> string list \<Rightarrow> run \<Rightarrow> string \<times> run" where
  "read_loop assistantId assistantContent [] r = (assistantContent, r)"
| "read_loop assistantId assistantContent (chunk # rest) r =
     (let assistantContent' = assistantContent @ chunk
      in read_loop assistantId assistantContent' rest
           (setMessages (update_content assistantId assistantContent') r))"

text \<open>
  The block ``Create a new conversation if needed'': the local \<open>convId\<close> and the run.
  \<open>s\<close> holds the values of the handler's closure.
\<close>

definition ensure_conversation :: "string \<Rightarrow> home \<Rightarrow> env \<Rightarrow> run \<Rightarrow> string option \<times> run" where
  "ensure_conversation base s env r =
     (if \<not> truthy_id (currentConversationId s) \<and> backendAvailable s then
        (let (rq, res) = createConversation base None (create_reply env);
             r1 = issue CreateConversation rq r
         in case res of
              Inr newConv \<Rightarrow>
                (Some (conv_id newConv),
                 loadConversations base (list_reply env)
                   (update_state (\<lambda>t. t\<lparr>currentConversationId := Some (conv_id newConv)\<rparr>) r1))
            | Inl err \<Rightarrow> (currentConversationId s, r1))
      else (currentConversationId s, r))"

text \<open>
  The block ``Save to backend'': the value thrown, if any, and the run. \<open>convId\<close> is the
  local variable, \<open>backendAvailable'\<close> the value the closure holds. The reload after a
  successful save is not awaited; its request is issued at once, and its state update
  touches other fields than the rest of the handler does, so the order does not show.
\<close>

definition save_to_backend ::
  "string \<Rightarrow> string \<Rightarrow> string option \<Rightarrow> bool \<Rightarrow> string \<Rightarrow> env \<Rightarrow> run \<Rightarrow> js_exn option \<times> run" where
  "save_to_backend base message convId backendAvailable' assistantContent env r =
     (if truthy_id convId \<and> backendAvailable' then
        (case convId of
           None \<Rightarrow> (None, r)
         | Some c \<Rightarrow>
             (let (rq, res) =
                    addMessages base c [(User, message), (Assistant, assistantContent)]
                      (add_reply env);
                  r1 = issue AddMessages rq r
              in case res of
                   Inl e \<Rightarrow> (Some e, r1)
                 | Inr saved \<Rightarrow> (None, loadConversations base (reload_reply env) r1)))
      else (None, r))"

text \<open>The \<open>try\<close> block: the value thrown, if any, and the run so far.\<close>

definition try_block ::
  "string \<Rightarrow> string \<Rightarrow> string option \<Rightarrow> bool \<Rightarrow> ChatMessage list \<Rightarrow> env \<Rightarrow> run
     \<Rightarrow> js_exn option \<times> run" where
  "try_block base message convId backendAvailable' updatedMessages env r =
     (let r1 = issue ChatRelay (chat_request updatedMessages) r
      in case chat_reply env of
           ChatFetchRejects e \<Rightarrow> (Some e, r1)
         | ChatResponse status body \<Rightarrow>
             if \<not> ok status then (Some (JsError ''Failed to get response''), r1)
             else
               (case body of
                  None \<Rightarrow> (Some (JsError ''No response body''), r1)
                | Some (chunks, ending) \<Rightarrow>
                    let assistantId = toString (now_assistant env + 1);
                        r2 = setMessages
                               (\<lambda>prev. prev @ [\<lparr>cm_id = assistantId, cm_role = Assistant,
                                                 cm_content = []\<rparr>]) r1;
                        (assistantContent, r3) = read_loop assistantId [] chunks r2
                    in case ending of
                         ReadRejects e \<Rightarrow> (Some e, r3)
                       | Done \<Rightarrow>
                           save_to_backend base message convId backendAvailable'
                             assistantContent env r3))"

text \<open>\<open>err instanceof Error ? err : new Error('An error occurred')\<close>\<close>

fun as_Error :: "js_exn \<Rightarrow> js_exn" where
  "as_Error (JsError msg) = JsError msg"
| "as_Error NonError = JsError ''An error occurred''"

text \<open>
  \<open>submitMessage\<close>, started in state \<open>s\<close> (the values its closure holds) and run to the
  end with no other handler in between.
\<close>

definition submitMessage :: "string \<Rightarrow> home \<Rightarrow> env \<Rightarrow> run" where
  "submitMessage message s env =
     (let base = BACKEND_URL (NEXT_PUBLIC_BACKEND_URL env);
          r0 = \<lparr>state = s\<lparr>error := None, isChatLoading := True\<rparr>, calls = [], renders = []\<rparr>;
          (convId, r1) = ensure_conversation base s env r0;
          userMessage = \<lparr>cm_id = toString (now_user env), cm_role = User, cm_content = message\<rparr>;
          updatedMessages = messages s @ [userMessage];
          r2 = setMessages (\<lambda>_. updatedMessages) r1;
          (thrown, r3) = try_block base message convId (backendAvailable s) updatedMessages env r2;
          r4 = (case thrown of
                  None \<Rightarrow> r3
                | Some err \<Rightarrow>
                    setMessages (filter (\<lambda>m. cm_content m \<noteq> []))
                      (update_state (\<lambda>t. t\<lparr>error := Some (as_Error err)\<rparr>) r3))
      in update_state (\<lambda>t. t\<lparr>isChatLoading := False\<rparr>) r4)"


text \<open>The run on which the \<open>try\<close> block of a submission starts, and what the block gives.\<close>

definition before_try :: "string \<Rightarrow> home \<Rightarrow> env \<Rightarrow> run" where
  "before_try message s env =
     setMessages
       (\<lambda>_. messages s @ [\<lparr>cm_id = toString (now_user env), cm_role = User, cm_content = message\<rparr>])
       (snd (ensure_conversation (BACKEND_URL (NEXT_PUBLIC_BACKEND_URL env)) s env
          \<lparr>state = s\<lparr>error := None, isChatLoading := True\<rparr>, calls = [], renders = []\<rparr>))"

definition tried :: "string \<Rightarrow> home \<Rightarrow> env \<Rightarrow> js_exn option \<times> run" where
  "tried message s env =
     try_block (BACKEND_URL (NEXT_PUBLIC_BACKEND_URL env)) message
       (fst (ensure_conversation (BACKEND_URL (NEXT_PUBLIC_BACKEND_URL env)) s env
          \<lparr>state = s\<lparr>error := None, isChatLoading := True\<rparr>, calls = [], renders = []\<rparr>))
       (backendAvailable s)
       (messages s @ [\<lparr>cm_id = toString (now_user env), cm_role = User, cm_content = message\<rparr>])
       env (before_try message s env)"

text \<open>
  The run of a submission at the moment the first \<open>k\<close> chunks of an ok response have been
  read: the handler is suspended in its loop, waiting for the next read.
\<close>

definition after_chunks :: "nat \<Rightarrow> string \<Rightarrow> home \<Rightarrow> env \<Rightarrow> run" where
  "after_chunks k message s env =
     (let r1 = issue ChatRelay
                 (chat_request
                    (messages s @
                       [\<lparr>cm_id = toString (now_user env), cm_role = User, cm_content = message\<rparr>]))
                 (before_try message s env);
          assistantId = toString (now_assistant env + 1);
          r2 = setMessages
                 (\<lambda>prev. prev @ [\<lparr>cm_id = assistantId, cm_role = Assistant, cm_content = []\<rparr>]) r1
      in case chat_reply env of
           ChatResponse status (Some (chunks, ending)) \<Rightarrow>
             if ok status then snd (read_loop assistantId [] (take k chunks) r2) else r1
         | _ \<Rightarrow> r1)"

text \<open>The transcript on screen is the last one handed to \<open>setMessages\<close>.\<close>

definition on_screen :: "run \<Rightarrow> bool" where
  "on_screen r = (renders r \<noteq> [] \<and> last (renders r) = messages (state r))"

text \<open>
  The relay fails when \<open>fetch\<close> rejects, when the response is not ok or has no body, or
  when a read rejects; \<open>partial_text\<close> is what \<open>assistantContent\<close> holds at that point.
\<close>

fun relay_failed :: "chat_reply \<Rightarrow> bool" where
  "relay_failed (ChatFetchRejects e) = True"
| "relay_failed (ChatResponse status None) = True"
| "relay_failed (ChatResponse status (Some (chunks, Done))) = (\<not> ok status)"
| "relay_failed (ChatResponse status (Some (chunks, ReadRejects e))) = True"

fun partial_text :: "chat_reply \<Rightarrow> string" where
  "partial_text (ChatResponse status (Some (chunks, ending))) =
     (if ok status then concat chunks else [])"
| "partial_text _ = []"


section \<open>The chat container and the welcome screen\<close>





section \<open>The conversation store and its API\<close>

text \<open>
  Modelled from the spec: the backend (the conversation store and the CRUD endpoints over
  it) is not among the sources; only the client that calls it is. A stored message is
  kept with the identifier of the conversation that owns it; \<open>st_next_id\<close> is the next
  message sequence number.
\<close>

record store =
  st_conversations :: "Conversation list"
  st_messages :: "(string \<times> Message) list"
  st_next_id :: nat

text \<open>
  Modelled from the spec: the two failure modes of the API, not-found (unknown
  conversation id) and validation failure (malformed body). The spec fixes no status
  codes beyond ``client error''; 404 and 422 are taken.
\<close>

datatype api_error = NotFound | ValidationFailure

text \<open>Modelled from the spec: the status code that reports each failure, a client error.\<close>

fun error_status :: "api_error \<Rightarrow> nat" where
  "error_status NotFound = 404"
| "error_status ValidationFailure = 422"

text \<open>Modelled from the spec: a conversation is known when the store holds its identifier.\<close>

definition conversation_exists :: "store \<Rightarrow> string \<Rightarrow> bool" where
  "conversation_exists db cid = (cid \<in> set (map conv_id (st_conversations db)))"

text \<open>
  Modelled from the spec: \<open>POST /api/conversations\<close> with body \<open>{title?: string|null}\<close>
  gives the created conversation. The identifier comes from the backend's generator
  and the time from its clock; both are arguments here.
\<close>

definition backend_create :: "store \<Rightarrow> string \<Rightarrow> string option \<Rightarrow> string \<Rightarrow> Conversation \<times> store" where
  "backend_create db new_id title now =
     (let conv = \<lparr>conv_id = new_id, conv_title = title, conv_created_at = now,
                   conv_updated_at = now\<rparr>
      in (conv, db\<lparr>st_conversations := st_conversations db @ [conv]\<rparr>))"

text \<open>Modelled from the spec: the messages of a conversation, in the order they were stored.\<close>

definition messages_of :: "store \<Rightarrow> string \<Rightarrow> Message list" where
  "messages_of db cid = map snd (filter (\<lambda>p. fst p = cid) (st_messages db))"

text \<open>
  Modelled from the spec: \<open>GET /api/conversations/{id}\<close> gives the conversation plus its
  ordered messages, and not-found for an unknown id.
\<close>

definition backend_get :: "store \<Rightarrow> string \<Rightarrow> api_error + Conversation \<times> Message list" where
  "backend_get db cid =
     (case find (\<lambda>c. conv_id c = cid) (st_conversations db) of
        None \<Rightarrow> Inl NotFound
      | Some conv \<Rightarrow> Inr (conv, messages_of db cid))"

text \<open>
  Modelled from the spec: \<open>GET /api/conversations/{id}/messages\<close> lists the messages of a
  known conversation.
\<close>

definition backend_list_messages :: "store \<Rightarrow> string \<Rightarrow> api_error + Message list" where
  "backend_list_messages db cid =
     (if conversation_exists db cid then Inr (messages_of db cid) else Inl NotFound)"

text \<open>
  Modelled from the spec: \<open>POST /api/conversations/{id}/messages\<close> persists an ordered
  batch as a unit, assigns identifiers and timestamps, and moves the conversation's
  \<open>updated_at\<close>; on an unknown id it fails with not-found and persists nothing.
\<close>

definition backend_append ::
  "store \<Rightarrow> string \<Rightarrow> (role \<times> string) list \<Rightarrow> string \<Rightarrow> (api_error + Message list) \<times> store" where
  "backend_append db cid batch now =
     (if \<not> conversation_exists db cid then (Inl NotFound, db)
      else
        (let saved = map (\<lambda>(i, m). \<lparr>msg_id = st_next_id db + i, msg_role = fst m,
                                      msg_content = snd m, msg_created_at = now\<rparr>)
                         (enumerate 0 batch)
         in (Inr saved,
             db\<lparr>st_conversations :=
                   map (\<lambda>c. if conv_id c = cid then c\<lparr>conv_updated_at := now\<rparr> else c)
                       (st_conversations db),
                 st_messages := st_messages db @ map (\<lambda>m. (cid, m)) saved,
                 st_next_id := st_next_id db + length batch\<rparr>)))"

text \<open>
  Modelled from the spec: \<open>DELETE /api/conversations/{id}\<close> answers with no body and
  cascades to the conversation's messages; an unknown id is not-found.
\<close>

definition backend_delete :: "store \<Rightarrow> string \<Rightarrow> (api_error + unit) \<times> store" where
  "backend_delete db cid =
     (if \<not> conversation_exists db cid then (Inl NotFound, db)
      else (Inr (),
            db\<lparr>st_conversations := filter (\<lambda>c. conv_id c \<noteq> cid) (st_conversations db),
               st_messages := filter (\<lambda>p. fst p \<noteq> cid) (st_messages db)\<rparr>))"

text \<open>
  Modelled from the spec: the response the client's \<open>fetch\<close> sees for an outcome of the
  API. An error response carries an error object, which is not of the type the client
  declares for the body.
\<close>

definition http_reply :: "nat \<Rightarrow> api_error + 'a \<Rightarrow> 'a reply" where
  "http_reply success res =
     (case res of
        Inr v \<Rightarrow> Response success (Inr v)
      | Inl e \<Rightarrow> Response (error_status e) (Inl (JsError ''not of the declared type'')))"


section \<open>Example inputs\<close>

definition example_home :: home where
  "example_home =
     \<lparr>conversations = [], currentConversationId = Some ''c1'', sidebarOpen = True,
      isLoadingConversations = False, backendAvailable = True, messages = [],
      isChatLoading = False, error = None\<rparr>"

definition offline_home :: home where
  "offline_home =
     \<lparr>conversations = [], currentConversationId = None, sidebarOpen = True,
      isLoadingConversations = False, backendAvailable = False, messages = [],
      isChatLoading = False, error = None\<rparr>"

text \<open>The reply \<open>Hi there\<close>, delivered in two chunks.\<close>

definition example_env :: env where
  "example_env =
     \<lparr>NEXT_PUBLIC_BACKEND_URL = None, now_user = 1000, now_assistant = 1001,
      create_reply = FetchRejects NonError, list_reply = FetchRejects NonError,
      chat_reply = ChatResponse 200 (Some ([''Hi '', ''there''], Done)),
      add_reply = Response 200 (Inr []), reload_reply = Response 200 (Inr [])\<rparr>"

text \<open>The same reply, cut off by a failing read after its first chunk.\<close>

definition interrupted_env :: env where
  "interrupted_env =
     \<lparr>NEXT_PUBLIC_BACKEND_URL = None, now_user = 1000, now_assistant = 1001,
      create_reply = FetchRejects NonError, list_reply = FetchRejects NonError,
      chat_reply = ChatResponse 200 (Some ([''Hi ''], ReadRejects (JsError ''network error''))),
      add_reply = Response 200 (Inr []), reload_reply = Response 200 (Inr [])\<rparr>"



definition example_store :: store where
  "example_store =
     snd (backend_append
       (snd (backend_create \<lparr>st_conversations = [], st_messages = [], st_next_id = 1\<rparr>
               ''c1'' None ''2025-01-01T00:00:00''))
       ''c1'' [(User, ''Hello''), (Assistant, ''Hi there'')] ''2025-01-01T00:00:05'')"


section \<open>Lemmas on the handler of the page\<close>

subsection \<open>Lists\<close>

lemma last_filter_keep: "xs \<noteq> [] \<Longrightarrow> P (last xs) \<Longrightarrow> last (filter P xs) = last xs"
  by (induction xs rule: rev_induct) auto

lemma prefixes_split: "prefixes xs = [] # tl (prefixes xs)"
  by (cases xs) simp_all

subsection \<open>The chunk update\<close>

lemma update_content_length: "length (update_content a c p) = length p"
  by (simp add: update_content_def)

lemma update_content_eq_Nil: "(update_content a c xs = []) = (xs = [])"
  by (simp add: update_content_def)

lemma update_content_twice: "update_content a c (update_content a c' p) = update_content a c p"
  by (induction p) (simp_all add: update_content_def)

lemma last_update_content:
  "xs \<noteq> [] \<Longrightarrow> cm_id (last xs) = a \<Longrightarrow>
   last (update_content a c xs) = (last xs)\<lparr>cm_content := c\<rparr>"
  by (simp add: update_content_def last_map)

lemma update_content_nonempty_mem:
  "m \<in> set (update_content a c xs) \<Longrightarrow> c = [] \<Longrightarrow> cm_content m \<noteq> [] \<Longrightarrow> m \<in> set xs"
  by (auto simp add: update_content_def split: if_splits)

subsection \<open>The read loop\<close>

lemmas run_defs = update_state_def issue_def setMessages_def

lemma read_loop_fst: "fst (read_loop a acc cs r) = acc @ concat cs"
  by (induction cs arbitrary: acc r) (simp_all add: Let_def)

lemma read_loop_calls: "calls (snd (read_loop a acc cs r)) = calls r"
  by (induction cs arbitrary: acc r) (simp_all add: Let_def setMessages_def)

lemma read_loop_state:
  "state (snd (read_loop a acc cs r)) =
     (state r)\<lparr>messages := (if cs = [] then messages (state r)
                             else update_content a (acc @ concat cs) (messages (state r)))\<rparr>"
  by (induction cs arbitrary: acc r) (simp_all add: Let_def setMessages_def update_content_twice)

lemma read_loop_renders:
  "renders (snd (read_loop a acc cs r)) =
     renders r @ map (\<lambda>p. update_content a (acc @ concat p) (messages (state r))) (tl (prefixes cs))"
proof (induction cs arbitrary: acc r)
  case Nil
  show ?case by simp
next
  case (Cons c cs)
  have "map (\<lambda>p. update_content a (acc @ concat p) (messages (state r))) (map ((#) c) (prefixes cs)) =
        update_content a (acc @ c) (messages (state r)) #
        map (\<lambda>p. update_content a (acc @ c @ concat p) (messages (state r))) (tl (prefixes cs))"
    by (subst prefixes_split [of cs]) (simp add: comp_def)
  then show ?case
    by (simp add: Let_def Cons.IH setMessages_def update_content_twice)
qed

lemma on_screen_setMessages: "on_screen (setMessages f r)"
  by (simp add: on_screen_def setMessages_def)

lemma on_screen_issue: "on_screen r \<Longrightarrow> on_screen (issue c rq r)"
  by (simp add: on_screen_def issue_def)

lemma on_screen_read_loop: "on_screen r \<Longrightarrow> on_screen (snd (read_loop a acc cs r))"
  by (induction cs arbitrary: acc r) (simp_all add: Let_def on_screen_setMessages)

subsection \<open>Reloading the conversation list\<close>

lemma loadConversations_calls:
  "calls (loadConversations base reply r) = calls r @ [(GetConversations, fst (getConversations base reply))]"
  by (simp add: loadConversations_def Let_def case_prod_unfold run_defs split: sum.splits)

lemma loadConversations_renders: "renders (loadConversations base reply r) = renders r"
  by (simp add: loadConversations_def Let_def case_prod_unfold run_defs split: sum.splits)

lemma loadConversations_messages:
  "messages (state (loadConversations base reply r)) = messages (state r)"
  by (simp add: loadConversations_def Let_def case_prod_unfold run_defs split: sum.splits)

lemma loadConversations_error:
  "error (state (loadConversations base reply r)) = error (state r)"
  by (simp add: loadConversations_def Let_def case_prod_unfold run_defs split: sum.splits)

lemma on_screen_loadConversations: "on_screen r \<Longrightarrow> on_screen (loadConversations base reply r)"
  by (simp add: on_screen_def loadConversations_renders loadConversations_messages)

subsection \<open>Creating the conversation\<close>

lemma ensure_conversation_renders: "renders (snd (ensure_conversation base s env r)) = renders r"
  by (simp add: ensure_conversation_def Let_def case_prod_unfold loadConversations_renders run_defs
        split: sum.splits)

lemma ensure_conversation_messages:
  "messages (state (snd (ensure_conversation base s env r))) = messages (state r)"
  by (simp add: ensure_conversation_def Let_def case_prod_unfold loadConversations_messages run_defs
        split: sum.splits)

lemma ensure_conversation_error:
  "error (state (snd (ensure_conversation base s env r))) = error (state r)"
  by (simp add: ensure_conversation_def Let_def case_prod_unfold loadConversations_error run_defs
        split: sum.splits)

lemma ensure_conversation_no_save:
  "filter (\<lambda>k. fst k = AddMessages) (calls (snd (ensure_conversation base s env r))) =
   filter (\<lambda>k. fst k = AddMessages) (calls r)"
  by (simp add: ensure_conversation_def Let_def case_prod_unfold loadConversations_calls run_defs
        split: sum.splits)

lemma ensure_conversation_offline:
  "\<not> backendAvailable s \<Longrightarrow> ensure_conversation base s env r = (currentConversationId s, r)"
  by (simp add: ensure_conversation_def)

lemma ensure_conversation_current:
  "currentConversationId s = Some c \<Longrightarrow> c \<noteq> [] \<Longrightarrow>
   fst (ensure_conversation base s env r) = Some c"
  by (simp add: ensure_conversation_def)

lemma ensure_conversation_created:
  "\<not> truthy_id (currentConversationId s) \<Longrightarrow> backendAvailable s \<Longrightarrow>
   snd (createConversation base None (create_reply env)) = Inr newConv \<Longrightarrow>
   fst (ensure_conversation base s env r) = Some (conv_id newConv)"
  by (simp add: ensure_conversation_def Let_def case_prod_unfold)

subsection \<open>Saving the exchange\<close>

lemma save_to_backend_renders:
  "renders (snd (save_to_backend base message convId b text env r)) = renders r"
  by (simp add: save_to_backend_def Let_def case_prod_unfold loadConversations_renders run_defs
        split: sum.splits option.splits)

lemma save_to_backend_messages:
  "messages (state (snd (save_to_backend base message convId b text env r))) = messages (state r)"
  by (simp add: save_to_backend_def Let_def case_prod_unfold loadConversations_messages run_defs
        split: sum.splits option.splits)

lemma save_to_backend_error:
  "error (state (snd (save_to_backend base message convId b text env r))) = error (state r)"
  by (simp add: save_to_backend_def Let_def case_prod_unfold loadConversations_error run_defs
        split: sum.splits option.splits)

lemma save_to_backend_offline: "\<not> b \<Longrightarrow> save_to_backend base message convId b text env r = (None, r)"
  by (simp add: save_to_backend_def)

lemma save_to_backend_once:
  "b \<Longrightarrow> c \<noteq> [] \<Longrightarrow>
   filter (\<lambda>k. fst k = AddMessages) (calls (snd (save_to_backend base message (Some c) b text env r))) =
   filter (\<lambda>k. fst k = AddMessages) (calls r) @
     [(AddMessages, fst (addMessages base c [(User, message), (Assistant, text)] (add_reply env)))]"
  by (simp add: save_to_backend_def Let_def case_prod_unfold loadConversations_calls run_defs
        split: sum.splits)

lemma on_screen_save_to_backend:
  "on_screen r \<Longrightarrow> on_screen (snd (save_to_backend base message convId b text env r))"
  by (simp add: on_screen_def save_to_backend_renders save_to_backend_messages)

subsection \<open>The try block\<close>

lemma try_block_failed_thrown:
  "relay_failed (chat_reply env) \<Longrightarrow> \<exists>e. fst (try_block base message convId b U env r) = Some e"
  by (cases "chat_reply env" rule: relay_failed.cases)
     (simp_all add: try_block_def Let_def case_prod_unfold)

lemma try_block_failed_no_save:
  "relay_failed (chat_reply env) \<Longrightarrow>
   filter (\<lambda>k. fst k = AddMessages) (calls (snd (try_block base message convId b U env r))) =
   filter (\<lambda>k. fst k = AddMessages) (calls r)"
  by (cases "chat_reply env" rule: relay_failed.cases)
     (simp_all add: try_block_def Let_def case_prod_unfold read_loop_calls run_defs)

lemma on_screen_try_block:
  "on_screen r \<Longrightarrow> on_screen (snd (try_block base message convId b U env r))"
  by (simp add: try_block_def Let_def case_prod_unfold on_screen_issue on_screen_setMessages
        on_screen_read_loop on_screen_save_to_backend
        split: chat_reply.splits option.splits stream_end.splits)

lemma try_block_error:
  "error (state (snd (try_block base message convId b U env r))) = error (state r)"
  by (simp add: try_block_def Let_def case_prod_unfold read_loop_state save_to_backend_error run_defs
        split: chat_reply.splits option.splits stream_end.splits)

lemma try_block_stream_messages:
  assumes "chat_reply env = ChatResponse status (Some (chunks, ending))" and "ok status"
  shows "messages (state (snd (try_block base message convId b U env r))) =
           (if chunks = []
            then messages (state r) @
                   [\<lparr>cm_id = toString (now_assistant env + 1), cm_role = Assistant, cm_content = []\<rparr>]
            else update_content (toString (now_assistant env + 1)) (concat chunks)
                   (messages (state r) @
                      [\<lparr>cm_id = toString (now_assistant env + 1), cm_role = Assistant,
                        cm_content = []\<rparr>]))"
  using assms
  by (simp add: try_block_def Let_def case_prod_unfold read_loop_state save_to_backend_messages
        run_defs split: stream_end.splits)

lemma try_block_partial_kept:
  assumes "relay_failed (chat_reply env)" and "partial_text (chat_reply env) \<noteq> []"
  shows "messages (state (snd (try_block base message convId b U env r))) \<noteq> [] \<and>
         last (messages (state (snd (try_block base message convId b U env r)))) =
           \<lparr>cm_id = toString (now_assistant env + 1), cm_role = Assistant,
            cm_content = partial_text (chat_reply env)\<rparr>"
  using assms
  by (cases "chat_reply env" rule: relay_failed.cases)
     (auto simp add: try_block_def Let_def case_prod_unfold read_loop_state run_defs
        last_update_content update_content_eq_Nil split: if_splits)

lemma try_block_nothing_kept:
  assumes "relay_failed (chat_reply env)" and "partial_text (chat_reply env) = []"
    and "m \<in> set (messages (state (snd (try_block base message convId b U env r))))"
    and "cm_content m \<noteq> []"
  shows "m \<in> set (messages (state r))"
proof (cases "chat_reply env" rule: relay_failed.cases)
  case (4 status chunks e)
  show ?thesis
  proof (cases "ok status")
    case True
    let ?a = "toString (now_assistant env + 1)"
    let ?T = "messages (state r) @ [\<lparr>cm_id = ?a, cm_role = Assistant, cm_content = []\<rparr>]"
    from 4 True assms(2) have empty: "concat chunks = []"
      by simp
    from assms(3) have mem: "m \<in> set (if chunks = [] then ?T else update_content ?a (concat chunks) ?T)"
      unfolding try_block_stream_messages [OF 4 True] .
    have "m \<in> set ?T"
    proof (cases "chunks = []")
      case True
      with mem show ?thesis by simp
    next
      case False
      with mem have "m \<in> set (update_content ?a (concat chunks) ?T)" by simp
      then show ?thesis using empty assms(4) by (rule update_content_nonempty_mem)
    qed
    with assms(4) show ?thesis
      by auto
  next
    case False
    with 4 assms(3) show ?thesis
      by (simp add: try_block_def Let_def run_defs)
  qed
qed (use assms(1,3) in \<open>auto simp add: try_block_def Let_def run_defs split: if_splits\<close>)

lemma try_block_renders:
  assumes "chat_reply env = ChatResponse status (Some (chunks, ending))" and "ok status"
  shows "renders (snd (try_block base message convId b U env r)) =
           renders r @
           (messages (state r) @
              [\<lparr>cm_id = toString (now_assistant env + 1), cm_role = Assistant, cm_content = []\<rparr>]) #
           map (\<lambda>p. update_content (toString (now_assistant env + 1)) (concat p)
                      (messages (state r) @
                         [\<lparr>cm_id = toString (now_assistant env + 1), cm_role = Assistant,
                           cm_content = []\<rparr>]))
               (tl (prefixes chunks))"
  using assms
  by (simp add: try_block_def Let_def case_prod_unfold read_loop_renders save_to_backend_renders
        run_defs split: stream_end.splits)

lemma try_block_done_save:
  assumes "chat_reply env = ChatResponse status (Some (chunks, Done))" and "ok status"
    and "b" and "c \<noteq> []"
  shows "filter (\<lambda>k. fst k = AddMessages)
           (calls (snd (try_block base message (Some c) b U env r))) =
         filter (\<lambda>k. fst k = AddMessages) (calls r) @
           [(AddMessages,
             fst (addMessages base c [(User, message), (Assistant, concat chunks)] (add_reply env)))]"
  using assms
  by (simp add: try_block_def Let_def case_prod_unfold read_loop_calls read_loop_fst
        save_to_backend_once run_defs)

lemma try_block_offline_calls:
  "calls (snd (try_block base message convId False U env r)) =
     calls r @ [(ChatRelay, chat_request U)]"
  by (simp add: try_block_def Let_def case_prod_unfold read_loop_calls save_to_backend_offline
        run_defs split: chat_reply.splits option.splits stream_end.splits)

lemma try_block_offline_done:
  assumes "chat_reply env = ChatResponse status (Some (chunks, Done))" and "ok status"
  shows "fst (try_block base message convId False U env r) = None"
  using assms
  by (simp add: try_block_def Let_def case_prod_unfold save_to_backend_offline)

lemma toString_examples: "toString 1000 = ''1000''" "toString 1002 = ''1002''"
  by (simp_all add: toString.simps)

subsection \<open>The whole handler\<close>

lemma submitMessage_tried:
  "submitMessage message s env =
     update_state (\<lambda>t. t\<lparr>isChatLoading := False\<rparr>)
       (case fst (tried message s env) of
          None \<Rightarrow> snd (tried message s env)
        | Some err \<Rightarrow>
            setMessages (filter (\<lambda>m. cm_content m \<noteq> []))
              (update_state (\<lambda>t. t\<lparr>error := Some (as_Error err)\<rparr>) (snd (tried message s env))))"
  unfolding submitMessage_def tried_def before_try_def Let_def case_prod_unfold ..

lemma before_try_messages:
  "messages (state (before_try message s env)) =
     messages s @ [\<lparr>cm_id = toString (now_user env), cm_role = User, cm_content = message\<rparr>]"
  by (simp add: before_try_def setMessages_def)

lemma before_try_renders:
  "renders (before_try message s env) =
     [messages s @ [\<lparr>cm_id = toString (now_user env), cm_role = User, cm_content = message\<rparr>]]"
  by (simp add: before_try_def setMessages_def ensure_conversation_renders)

lemma before_try_error: "error (state (before_try message s env)) = None"
  by (simp add: before_try_def setMessages_def ensure_conversation_error)

lemma before_try_no_save:
  "filter (\<lambda>k. fst k = AddMessages) (calls (before_try message s env)) = []"
  by (simp add: before_try_def setMessages_def ensure_conversation_no_save)

lemma before_try_offline:
  "\<not> backendAvailable s \<Longrightarrow> calls (before_try message s env) = []"
  by (simp add: before_try_def setMessages_def ensure_conversation_offline)

lemma on_screen_before_try: "on_screen (before_try message s env)"
  by (simp add: before_try_def on_screen_setMessages)

lemma submitMessage_thrown:
  assumes "fst (tried message s env) = Some e"
  shows "calls (submitMessage message s env) = calls (snd (tried message s env))"
    and "messages (state (submitMessage message s env)) =
           filter (\<lambda>m. cm_content m \<noteq> []) (messages (state (snd (tried message s env))))"
    and "renders (submitMessage message s env) =
           renders (snd (tried message s env)) @
             [filter (\<lambda>m. cm_content m \<noteq> []) (messages (state (snd (tried message s env))))]"
    and "error (state (submitMessage message s env)) = Some (as_Error e)"
  using assms by (simp_all add: submitMessage_tried run_defs)

lemma submitMessage_returned:
  assumes "fst (tried message s env) = None"
  shows "calls (submitMessage message s env) = calls (snd (tried message s env))"
    and "messages (state (submitMessage message s env)) = messages (state (snd (tried message s env)))"
    and "renders (submitMessage message s env) = renders (snd (tried message s env))"
    and "error (state (submitMessage message s env)) = None"
  using assms by (simp_all add: submitMessage_tried run_defs tried_def try_block_error before_try_error)

lemma submitMessage_not_loading: "\<not> isChatLoading (state (submitMessage message s env))"
  by (simp add: submitMessage_tried run_defs)


lemma submitMessage_calls:
  "calls (submitMessage message s env) = calls (snd (tried message s env))"
  by (simp add: submitMessage_tried run_defs split: option.splits)


lemma submitMessage_renders:
  "\<exists>rest. renders (submitMessage message s env) = renders (snd (tried message s env)) @ rest"
  by (simp add: submitMessage_tried run_defs split: option.splits)

lemma submitMessage_no_error:
  assumes "error (state (submitMessage message s env)) = None"
  shows "fst (tried message s env) = None"
proof (cases "fst (tried message s env)")
  case (Some e)
  with assms show ?thesis
    by (simp add: submitMessage_thrown(4))
qed simp

lemma last_streamed:
  "last (if chunks = [] then xs @ [\<lparr>cm_id = a, cm_role = Assistant, cm_content = []\<rparr>]
         else update_content a (concat chunks) (xs @ [\<lparr>cm_id = a, cm_role = Assistant, cm_content = []\<rparr>])) =
   \<lparr>cm_id = a, cm_role = Assistant, cm_content = concat chunks\<rparr>"
  by (simp add: last_update_content)


section \<open>Properties of the relay route\<close>

lemma POST_catch_status: "response_status (POST_catch e) = Some 500"
  by (simp add: POST_catch_def split: js_exn.splits)

lemma POST_catch_error_body: "\<exists>msg. error_body (POST_catch e) = Some msg"
  by (simp add: POST_catch_def split: js_exn.splits)

lemma POST_unparsable_body: "response_status (fst (POST streamText (Inl e))) = Some 500"
  by (simp add: POST_def POST_catch_status)

lemma POST_null_body: "response_status (fst (POST streamText (Inr JNull))) = Some 500"
  by (simp add: POST_def POST_catch_status)

lemma POST_messages_missing:
  "v \<noteq> JNull \<Longrightarrow> get_property v ''messages'' = None \<Longrightarrow>
   POST streamText (Inr v) = (invalid_request, [])"
  by (cases v) (simp_all add: POST_def)

lemma POST_messages_not_array:
  "get_property v ''messages'' = Some m \<Longrightarrow> \<not> isArray m \<Longrightarrow>
   POST streamText (Inr v) = (invalid_request, [])"
  by (cases v) (simp_all add: POST_def)

lemma invalid_request_status:
  "response_status invalid_request = Some 400 \<and>
   error_body invalid_request = Some ''Invalid request: messages array required''"
  by (simp add: invalid_request_def)

lemma POST_upstream_failure:
  "get_property v ''messages'' = Some (JArr ms) \<Longrightarrow>
   streamText \<lparr>req_model = ''gemini-2.5-flash'', req_system = SYSTEM_PROMPT,
               req_messages = JArr ms, req_temperature = 7 / 10\<rparr> = Inl e \<Longrightarrow>
   response_status (fst (POST streamText (Inr v))) = Some 500"
  by (cases v) (simp_all add: POST_def POST_catch_status)

lemma POST_streams:
  "get_property v ''messages'' = Some (JArr ms) \<Longrightarrow>
   streamText \<lparr>req_model = ''gemini-2.5-flash'', req_system = SYSTEM_PROMPT,
               req_messages = JArr ms, req_temperature = 7 / 10\<rparr> = Inr result \<Longrightarrow>
   fst (POST streamText (Inr v)) = TextStreamResponse result"
  by (cases v) (simp_all add: POST_def)

text \<open>
  Claim C3. Every request to \<open>POST /api/chat\<close> with malformed input (a body that is not
  valid JSON, or a missing or non-array \<open>messages\<close>) is answered with a 4xx and a JSON body
  \<open>{error: string}\<close>; an upstream or configuration failure with a 5xx and such a body;
  every other request with the raw streamed text.

  The handler answers a missing or non-array \<open>messages\<close> with 400
  (\<open>POST_messages_missing\<close>, \<open>POST_messages_not_array\<close>), a throwing SDK call, the one
  upstream failure it can see, with 500 (\<open>POST_upstream_failure\<close>), and streams
  otherwise (\<open>POST_streams\<close>). A body that is not
  JSON makes \<open>req.json()\<close> throw inside the \<open>try\<close>, so it falls to the \<open>catch\<close> block and is
  answered with 500, not with a 4xx: the theorem evaluates the handler on the body
  \<open>{"messages": [\<close>, on which parsing fails with ``Unexpected end of JSON input''.
\<close>

theorem POST_unparsable_body_answers_500:
  "fst (POST streamText (Inl (JsError ''Unexpected end of JSON input''))) =
     JsonResponse 500 [(''Content-Type'', ''application/json'')]
       (JObj [(''error'', JStr ''An error occurred while processing your request.'')])"
  by (simp add: POST_def POST_catch_def json_headers_def)

text \<open>The same request with an SDK that would have answered.\<close>

theorem POST_unparsable_body_answers_500_witness:
  "fst (POST (\<lambda>rq. Inr [''Hi '', ''there'']) (Inl (JsError ''Unexpected end of JSON input''))) =
     JsonResponse 500 [(''Content-Type'', ''application/json'')]
       (JObj [(''error'', JStr ''An error occurred while processing your request.'')])"
  by (rule POST_unparsable_body_answers_500)

text \<open>
  Claim C5. For every valid request to \<open>POST /api/chat\<close> (\<open>messages\<close> is an array), the
  request forwarded to the hosted model is the one fixed system prompt (with the fixed
  model name and temperature) together with exactly the input message list, unmodified
  and in its original order; and exactly one request is forwarded.
\<close>

theorem POST_forwards_messages_unchanged:
  assumes "get_property v ''messages'' = Some (JArr ms)"
  shows "snd (POST streamText (Inr v)) =
           [\<lparr>req_model = ''gemini-2.5-flash'', req_system = SYSTEM_PROMPT,
             req_messages = JArr ms, req_temperature = 7 / 10\<rparr>]"
  using assms by (cases v) (simp_all add: POST_def Let_def split: sum.splits)

theorem POST_forwards_messages_unchanged_witness:
  "get_property (JObj [(''messages'', JArr [JObj [(''role'', JStr ''user''), (''content'', JStr ''Hello'')]])])
     ''messages'' = Some (JArr [JObj [(''role'', JStr ''user''), (''content'', JStr ''Hello'')]]) \<and>
   snd (POST (\<lambda>rq. Inr [''Hi '', ''there''])
          (Inr (JObj [(''messages'',
                       JArr [JObj [(''role'', JStr ''user''), (''content'', JStr ''Hello'')]])]))) =
     [\<lparr>req_model = ''gemini-2.5-flash'', req_system = SYSTEM_PROMPT,
       req_messages = JArr [JObj [(''role'', JStr ''user''), (''content'', JStr ''Hello'')]],
       req_temperature = 7 / 10\<rparr>]"
  using POST_forwards_messages_unchanged
          [of "JObj [(''messages'',
                      JArr [JObj [(''role'', JStr ''user''), (''content'', JStr ''Hello'')]])]"
              "[JObj [(''role'', JStr ''user''), (''content'', JStr ''Hello'')]]"
              "\<lambda>rq. Inr [''Hi '', ''there'']"]
  by simp


section \<open>Properties of the streaming client\<close>

text \<open>
  Claim C4. For every sequence of chunks the relay delivers, the client appends each
  chunk to one growing buffer in arrival order and renders after every chunk: the
  transcripts rendered from the assistant placeholder on end in an assistant message
  whose content runs through the concatenations of the prefixes of the chunk list,
  from the empty text to the concatenation of all chunks. When the stream completes
  and the submission ends without an error, the last message of the final transcript
  is the assistant's, with the concatenation of all chunks as its content. The chunks
  \<open>Hi \<close> and \<open>there\<close> render as \<open>Hi there\<close> (the witness).
\<close>

theorem chunks_rendered_in_arrival_order:
  assumes "chat_reply env = ChatResponse status (Some (chunks, ending))" and "ok status"
  shows "map last (take (Suc (length chunks)) (drop 1 (renders (submitMessage message s env)))) =
           map (\<lambda>p. \<lparr>cm_id = toString (now_assistant env + 1), cm_role = Assistant,
                      cm_content = concat p\<rparr>)
               (prefixes chunks) \<and>
         (ending = Done \<and> error (state (submitMessage message s env)) = None \<longrightarrow>
            last (messages (state (submitMessage message s env))) =
              \<lparr>cm_id = toString (now_assistant env + 1), cm_role = Assistant,
               cm_content = concat chunks\<rparr>)"
proof -
  let ?a = "toString (now_assistant env + 1)"
  let ?U = "messages s @ [\<lparr>cm_id = toString (now_user env), cm_role = User, cm_content = message\<rparr>]"
  let ?T = "?U @ [\<lparr>cm_id = ?a, cm_role = Assistant, cm_content = []\<rparr>]"
  let ?shown = "?T # map (\<lambda>p. update_content ?a (concat p) ?T) (tl (prefixes chunks))"
  have "renders (snd (tried message s env)) = ?U # ?shown"
    by (simp add: tried_def try_block_renders [OF assms] before_try_renders before_try_messages)
  with submitMessage_renders [of message s env]
  obtain rest where "renders (submitMessage message s env) = ?U # ?shown @ rest"
    by auto
  then have "take (Suc (length chunks)) (drop 1 (renders (submitMessage message s env))) = ?shown"
    by simp
  moreover have "map last ?shown =
      map (\<lambda>p. \<lparr>cm_id = ?a, cm_role = Assistant, cm_content = concat p\<rparr>) ([] # tl (prefixes chunks))"
    by (simp add: last_update_content comp_def)
  ultimately have shown:
    "map last (take (Suc (length chunks)) (drop 1 (renders (submitMessage message s env)))) =
       map (\<lambda>p. \<lparr>cm_id = ?a, cm_role = Assistant, cm_content = concat p\<rparr>) (prefixes chunks)"
    using prefixes_split [of chunks] by simp
  have final: "last (messages (state (submitMessage message s env))) =
      \<lparr>cm_id = ?a, cm_role = Assistant, cm_content = concat chunks\<rparr>"
    if "ending = Done" and "error (state (submitMessage message s env)) = None"
  proof -
    from that(2) have "fst (tried message s env) = None"
      by (rule submitMessage_no_error)
    then have "messages (state (submitMessage message s env)) =
        (if chunks = [] then ?T else update_content ?a (concat chunks) ?T)"
      by (simp add: submitMessage_returned(2) tried_def try_block_stream_messages [OF assms]
            before_try_messages)
    then show ?thesis
      using last_streamed [of chunks ?U ?a] by simp
  qed
  from shown final show ?thesis
    by blast
qed

theorem chunks_rendered_in_arrival_order_witness:
  "ok 200 \<and>
   map last (take 3 (drop 1 (renders (submitMessage ''Hello'' example_home example_env)))) =
     [\<lparr>cm_id = ''1002'', cm_role = Assistant, cm_content = []\<rparr>,
      \<lparr>cm_id = ''1002'', cm_role = Assistant, cm_content = ''Hi ''\<rparr>,
      \<lparr>cm_id = ''1002'', cm_role = Assistant, cm_content = ''Hi there''\<rparr>] \<and>
   last (messages (state (submitMessage ''Hello'' example_home example_env))) =
     \<lparr>cm_id = ''1002'', cm_role = Assistant, cm_content = ''Hi there''\<rparr>"
proof -
  have reply: "chat_reply example_env = ChatResponse 200 (Some ([''Hi '', ''there''], Done))"
    by (simp add: example_env_def)
  have status: "ok 200"
    by (simp add: ok_def)
  have now: "now_assistant example_env + 1 = 1002"
    by (simp add: example_env_def)
  have no_error: "error (state (submitMessage ''Hello'' example_home example_env)) = None"
    by (simp add: submitMessage_def ensure_conversation_def try_block_def save_to_backend_def
          loadConversations_def getConversations_def addMessages_def settle_def
          example_home_def example_env_def run_defs Let_def ok_def)
  from chunks_rendered_in_arrival_order [OF reply status, of "''Hello''" example_home]
    status now no_error
  show ?thesis
    by (simp add: numeral_3_eq_3 toString_examples)
qed

text \<open>
  Claim C8. The update applied to the transcript for a chunk changes only the content
  of the messages whose id is the streaming assistant id: the number and the order of
  the messages, and the id and role of every message, are unchanged; a message with
  another id is unchanged altogether; a message with the assistant id gets the
  accumulated text as its content.
\<close>

theorem update_content_frame:
  "length (update_content assistantId assistantContent prev) = length prev \<and>
   (\<forall>i < length prev.
      cm_id (update_content assistantId assistantContent prev ! i) = cm_id (prev ! i) \<and>
      cm_role (update_content assistantId assistantContent prev ! i) = cm_role (prev ! i) \<and>
      (cm_id (prev ! i) \<noteq> assistantId \<longrightarrow>
         update_content assistantId assistantContent prev ! i = prev ! i) \<and>
      (cm_id (prev ! i) = assistantId \<longrightarrow>
         cm_content (update_content assistantId assistantContent prev ! i) = assistantContent))"
  by (simp add: update_content_def)

theorem update_content_frame_witness:
  "update_content ''1002'' ''Hi there''
     [\<lparr>cm_id = ''1000'', cm_role = User, cm_content = ''Hello''\<rparr>,
      \<lparr>cm_id = ''1002'', cm_role = Assistant, cm_content = ''Hi ''\<rparr>] ! 0 =
     \<lparr>cm_id = ''1000'', cm_role = User, cm_content = ''Hello''\<rparr> \<and>
   cm_content (update_content ''1002'' ''Hi there''
     [\<lparr>cm_id = ''1000'', cm_role = User, cm_content = ''Hello''\<rparr>,
      \<lparr>cm_id = ''1002'', cm_role = Assistant, cm_content = ''Hi ''\<rparr>] ! 1) = ''Hi there''"
proof -
  let ?prev = "[\<lparr>cm_id = ''1000'', cm_role = User, cm_content = ''Hello''\<rparr>,
                \<lparr>cm_id = ''1002'', cm_role = Assistant, cm_content = ''Hi ''\<rparr>]"
  note frame = update_content_frame [of "''1002''" "''Hi there''" ?prev, THEN conjunct2, rule_format]
  from frame [of 0] frame [of 1] show ?thesis
    by simp
qed

text \<open>
  Claim C2. For every submission with the backend available, a conversation id in
  effect (the current one when it is non-empty, otherwise the id of the conversation
  just created) and a relay stream that completes normally, exactly one append-messages
  call is issued, and its body is exactly the pair of the user's message and the
  assistant message holding the concatenation of all chunks.
\<close>

theorem completed_stream_saved_once:
  assumes "backendAvailable s"
    and "chat_reply env = ChatResponse status (Some (chunks, Done))" and "ok status"
    and "currentConversationId s = Some c \<and> c \<noteq> [] \<or>
         \<not> truthy_id (currentConversationId s) \<and>
         snd (createConversation (BACKEND_URL (NEXT_PUBLIC_BACKEND_URL env)) None (create_reply env)) =
           Inr newConv \<and>
         conv_id newConv = c \<and> c \<noteq> []"
  shows "filter (\<lambda>k. fst k = AddMessages) (calls (submitMessage message s env)) =
           [(AddMessages,
             \<lparr>rq_method = ''POST'',
              rq_url = BACKEND_URL (NEXT_PUBLIC_BACKEND_URL env) @ ''/api/conversations/'' @ c @ ''/messages'',
              rq_headers = [(''Content-Type'', ''application/json'')],
              rq_body = Some (JArr [JObj [(''role'', JStr ''user''), (''content'', JStr message)],
                                    JObj [(''role'', JStr ''assistant''),
                                          (''content'', JStr (concat chunks))]])\<rparr>)]"
proof -
  let ?base = "BACKEND_URL (NEXT_PUBLIC_BACKEND_URL env)"
  let ?r0 = "\<lparr>state = s\<lparr>error := None, isChatLoading := True\<rparr>, calls = [], renders = []\<rparr>"
  from assms(1,4) have convId: "fst (ensure_conversation ?base s env ?r0) = Some c" and "c \<noteq> []"
    by (auto simp add: ensure_conversation_current ensure_conversation_created)
  with assms(1-3) have
    "filter (\<lambda>k. fst k = AddMessages) (calls (snd (tried message s env))) =
       [(AddMessages,
         fst (addMessages ?base c [(User, message), (Assistant, concat chunks)] (add_reply env)))]"
    by (simp add: tried_def try_block_done_save before_try_no_save)
  then show ?thesis
    by (simp add: submitMessage_calls addMessages_def message_json_def json_headers_def)
qed

theorem completed_stream_saved_once_witness:
  "backendAvailable example_home \<and> ok 200 \<and>
   filter (\<lambda>k. fst k = AddMessages) (calls (submitMessage ''Hello'' example_home example_env)) =
     [(AddMessages,
       \<lparr>rq_method = ''POST'',
        rq_url = ''http://localhost:8000/api/conversations/c1/messages'',
        rq_headers = [(''Content-Type'', ''application/json'')],
        rq_body = Some (JArr [JObj [(''role'', JStr ''user''), (''content'', JStr ''Hello'')],
                              JObj [(''role'', JStr ''assistant''), (''content'', JStr ''Hi there'')]])\<rparr>)]"
proof -
  have available: "backendAvailable example_home"
    by (simp add: example_home_def)
  have reply: "chat_reply example_env = ChatResponse 200 (Some ([''Hi '', ''there''], Done))"
    by (simp add: example_env_def)
  have status: "ok 200"
    by (simp add: ok_def)
  have conv: "currentConversationId example_home = Some ''c1'' \<and> ''c1'' \<noteq> [] \<or>
      \<not> truthy_id (currentConversationId example_home) \<and>
      snd (createConversation (BACKEND_URL (NEXT_PUBLIC_BACKEND_URL example_env)) None
             (create_reply example_env)) = Inr undefined \<and>
      conv_id undefined = ''c1'' \<and> ''c1'' \<noteq> []"
    by (simp add: example_home_def)
  have url: "BACKEND_URL (NEXT_PUBLIC_BACKEND_URL example_env) = ''http://localhost:8000''"
    by (simp add: example_env_def BACKEND_URL_def)
  from completed_stream_saved_once [OF available reply status conv, of "''Hello''"] available status url show ?thesis
    by simp
qed

text \<open>
  Claim C1, as amended. For every submission whose relay fails (the fetch rejects, the
  response is not ok or has no body, or a read rejects), no append-messages call is
  made, and the final transcript is the transcript on screen at the failure with
  exactly the messages of empty content removed. When the text accumulated so far is
  empty, every remaining message is a prior message or the user's message, so the
  assistant placeholder is gone; when it is not empty, the assistant message stays as
  the last message, with that partial text.
\<close>

theorem relay_failure_removes_only_empty_messages:
  assumes "relay_failed (chat_reply env)"
  shows "filter (\<lambda>k. fst k = AddMessages) (calls (submitMessage message s env)) = [] \<and>
         messages (state (submitMessage message s env)) =
           filter (\<lambda>m. cm_content m \<noteq> []) (last (butlast (renders (submitMessage message s env)))) \<and>
         (partial_text (chat_reply env) \<noteq> [] \<longrightarrow>
            last (messages (state (submitMessage message s env))) =
              \<lparr>cm_id = toString (now_assistant env + 1), cm_role = Assistant,
               cm_content = partial_text (chat_reply env)\<rparr>) \<and>
         (partial_text (chat_reply env) = [] \<longrightarrow>
            set (messages (state (submitMessage message s env))) \<subseteq>
              set (messages s @
                     [\<lparr>cm_id = toString (now_user env), cm_role = User, cm_content = message\<rparr>]))"
proof -
  let ?t = "snd (tried message s env)"
  let ?nonempty = "\<lambda>m. cm_content m \<noteq> []"
  from assms obtain e where thrown: "fst (tried message s env) = Some e"
    unfolding tried_def using try_block_failed_thrown by blast
  have screen: "on_screen ?t"
    unfolding tried_def by (rule on_screen_try_block) (rule on_screen_before_try)
  have "filter (\<lambda>k. fst k = AddMessages) (calls ?t) = []"
    unfolding tried_def using assms by (simp add: try_block_failed_no_save before_try_no_save)
  then have no_save: "filter (\<lambda>k. fst k = AddMessages) (calls (submitMessage message s env)) = []"
    by (simp add: submitMessage_thrown(1) [OF thrown])
  have filtered: "messages (state (submitMessage message s env)) =
      filter ?nonempty (last (butlast (renders (submitMessage message s env))))"
    using screen by (simp add: submitMessage_thrown(2,3) [OF thrown] on_screen_def)
  have kept: "last (messages (state (submitMessage message s env))) =
      \<lparr>cm_id = toString (now_assistant env + 1), cm_role = Assistant,
       cm_content = partial_text (chat_reply env)\<rparr>"
    if "partial_text (chat_reply env) \<noteq> []"
    using try_block_partial_kept [OF assms that, folded tried_def] that
    by (simp add: submitMessage_thrown(2) [OF thrown] last_filter_keep tried_def)
  have dropped: "set (messages (state (submitMessage message s env))) \<subseteq>
      set (messages s @ [\<lparr>cm_id = toString (now_user env), cm_role = User, cm_content = message\<rparr>])"
    if "partial_text (chat_reply env) = []"
  proof
    fix m
    assume "m \<in> set (messages (state (submitMessage message s env)))"
    then have "m \<in> set (messages (state ?t))" and "cm_content m \<noteq> []"
      by (simp_all add: submitMessage_thrown(2) [OF thrown])
    then have "m \<in> set (messages (state (before_try message s env)))"
      unfolding tried_def using assms that by (auto intro: try_block_nothing_kept)
    then show "m \<in> set (messages s @
        [\<lparr>cm_id = toString (now_user env), cm_role = User, cm_content = message\<rparr>])"
      by (simp only: before_try_messages)
  qed
  from no_save filtered kept dropped show ?thesis
    by blast
qed

theorem relay_failure_removes_only_empty_messages_witness:
  "relay_failed (chat_reply interrupted_env) \<and>
   partial_text (chat_reply interrupted_env) = ''Hi '' \<and>
   filter (\<lambda>k. fst k = AddMessages) (calls (submitMessage ''Hello'' example_home interrupted_env)) = [] \<and>
   last (messages (state (submitMessage ''Hello'' example_home interrupted_env))) =
     \<lparr>cm_id = ''1002'', cm_role = Assistant, cm_content = ''Hi ''\<rparr>"
proof -
  have failed: "relay_failed (chat_reply interrupted_env)"
    by (simp add: interrupted_env_def)
  have partial: "partial_text (chat_reply interrupted_env) = ''Hi ''"
    by (simp add: interrupted_env_def ok_def)
  have now: "now_assistant interrupted_env + 1 = 1002"
    by (simp add: interrupted_env_def)
  note discard =
    relay_failure_removes_only_empty_messages [OF failed, of "''Hello''" example_home]
  note no_save = discard [THEN conjunct1]
  note kept = discard [THEN conjunct2, THEN conjunct2, THEN conjunct1]
  from no_save kept failed partial now show ?thesis
    by (simp add: toString_examples)
qed

text \<open>
  Claim C1 as stated (no partial assistant content remains visible after a relay
  failure) fails: when a read rejects after the chunk \<open>Hi \<close>, the final transcript still
  shows the assistant message with the content \<open>Hi \<close>, since the \<open>catch\<close> block removes
  only messages whose content is empty.
\<close>

theorem partial_reply_stays_visible:
  "relay_failed (chat_reply interrupted_env) \<and>
   messages (state (submitMessage ''Hello'' example_home interrupted_env)) =
     [\<lparr>cm_id = ''1000'', cm_role = User, cm_content = ''Hello''\<rparr>,
      \<lparr>cm_id = ''1002'', cm_role = Assistant, cm_content = ''Hi ''\<rparr>]"
  by (simp add: submitMessage_def ensure_conversation_def try_block_def example_home_def
        interrupted_env_def run_defs Let_def ok_def toString.simps update_content_def)

text \<open>
  Claim C6. For every submission made while \<open>backendAvailable\<close> is false, the only
  network call is the relay request: no conversation is created, no messages are
  appended and the conversation list is not fetched. When the relay stream completes
  normally the submission ends without an error, and the transcript has grown by the
  user's message and the assistant message holding the whole streamed text.
\<close>

theorem offline_submission_streams_without_persistence:
  assumes "\<not> backendAvailable s"
  shows "calls (submitMessage message s env) =
           [(ChatRelay,
             chat_request
               (messages s @
                  [\<lparr>cm_id = toString (now_user env), cm_role = User, cm_content = message\<rparr>]))] \<and>
         (\<forall>status chunks.
            chat_reply env = ChatResponse status (Some (chunks, Done)) \<and> ok status \<longrightarrow>
              error (state (submitMessage message s env)) = None \<and>
              length (messages (state (submitMessage message s env))) = length (messages s) + 2 \<and>
              last (messages (state (submitMessage message s env))) =
                \<lparr>cm_id = toString (now_assistant env + 1), cm_role = Assistant,
                 cm_content = concat chunks\<rparr>)"
proof -
  let ?a = "toString (now_assistant env + 1)"
  let ?U = "messages s @ [\<lparr>cm_id = toString (now_user env), cm_role = User, cm_content = message\<rparr>]"
  let ?T = "?U @ [\<lparr>cm_id = ?a, cm_role = Assistant, cm_content = []\<rparr>]"
  from assms have "calls (submitMessage message s env) = [(ChatRelay, chat_request ?U)]"
    by (simp add: submitMessage_calls tried_def try_block_offline_calls before_try_offline)
  moreover have "error (state (submitMessage message s env)) = None \<and>
      length (messages (state (submitMessage message s env))) = length (messages s) + 2 \<and>
      last (messages (state (submitMessage message s env))) =
        \<lparr>cm_id = ?a, cm_role = Assistant, cm_content = concat chunks\<rparr>"
    if reply: "chat_reply env = ChatResponse status (Some (chunks, Done))" and "ok status"
    for status chunks
  proof -
    from assms that have returned: "fst (tried message s env) = None"
      by (simp add: tried_def try_block_offline_done)
    have "messages (state (submitMessage message s env)) =
        (if chunks = [] then ?T else update_content ?a (concat chunks) ?T)"
      by (simp add: submitMessage_returned(2) [OF returned] tried_def
            try_block_stream_messages [OF that] before_try_messages)
    then show ?thesis
      using last_streamed [of chunks ?U ?a]
      by (simp add: submitMessage_returned(4) [OF returned] update_content_length)
  qed
  ultimately show ?thesis
    by blast
qed

theorem offline_submission_streams_without_persistence_witness:
  "\<not> backendAvailable offline_home \<and> ok 200 \<and>
   calls (submitMessage ''Hello'' offline_home example_env) =
     [(ChatRelay,
       \<lparr>rq_method = ''POST'', rq_url = ''/api/chat'',
        rq_headers = [(''Content-Type'', ''application/json'')],
        rq_body = Some (JObj [(''messages'',
                    JArr [JObj [(''id'', JStr ''1000''), (''role'', JStr ''user''),
                                (''content'', JStr ''Hello'')]])])\<rparr>)] \<and>
   length (messages (state (submitMessage ''Hello'' offline_home example_env))) = 2 \<and>
   last (messages (state (submitMessage ''Hello'' offline_home example_env))) =
     \<lparr>cm_id = ''1002'', cm_role = Assistant, cm_content = ''Hi there''\<rparr>"
proof -
  have offline: "\<not> backendAvailable offline_home"
    by (simp add: offline_home_def)
  have reply: "chat_reply example_env = ChatResponse 200 (Some ([''Hi '', ''there''], Done))"
    by (simp add: example_env_def)
  have status: "ok 200"
    by (simp add: ok_def)
  have now: "now_assistant example_env + 1 = 1002" "now_user example_env = 1000"
    by (simp_all add: example_env_def)
  have empty: "messages offline_home = []"
    by (simp add: offline_home_def)
  note offline_submission_streams_without_persistence = offline_submission_streams_without_persistence [OF offline, of "''Hello''" example_env]
  from offline_submission_streams_without_persistence [THEN conjunct1] offline_submission_streams_without_persistence [THEN conjunct2, rule_format, of 200 "[''Hi '', ''there'']"]
    offline reply status now empty
  show ?thesis
    by (simp add: chat_request_def ChatMessage_json_def json_headers_def toString_examples)
qed


section \<open>Properties of the chat input and of the API client\<close>





text \<open>
  The run of a submission whose stream ends in a rejecting read is the run suspended
  after the last chunk.
\<close>

lemma after_all_chunks:
  assumes "chat_reply env = ChatResponse status (Some (chunks, ReadRejects e))" and "ok status"
  shows "snd (tried message s env) = after_chunks (length chunks) message s env"
  using assms by (simp add: tried_def try_block_def after_chunks_def Let_def case_prod_unfold)




text \<open>
  Claim C10. \<open>createConversation\<close> sends the body \<open>{title: null}\<close> when the title is omitted
  and when it is the empty string, and sends a non-empty title unchanged.
\<close>

theorem createConversation_title_or_null:
  "rq_body (fst (createConversation base None r)) = Some (JObj [(''title'', JNull)]) \<and>
   rq_body (fst (createConversation base (Some []) r)) = Some (JObj [(''title'', JNull)]) \<and>
   (t \<noteq> [] \<longrightarrow> rq_body (fst (createConversation base (Some t) r)) = Some (JObj [(''title'', JStr t)]))"
  by (simp add: createConversation_def title_or_null_def)

theorem createConversation_title_or_null_witness:
  "''Trip'' \<noteq> [] \<and>
   rq_body (fst (createConversation ''http://localhost:8000'' (Some ''Trip'') (FetchRejects NonError))) =
     Some (JObj [(''title'', JStr ''Trip'')])"
  using createConversation_title_or_null [of "''http://localhost:8000''" "FetchRejects NonError" "''Trip''"] by simp


section \<open>Properties of the conversation store\<close>

lemma find_None_filtered: "find (\<lambda>c. conv_id c = cid) (filter (\<lambda>c. conv_id c \<noteq> cid) cs) = None"
  by (simp add: find_None_iff)

lemma backend_delete_known:
  "conversation_exists db cid \<Longrightarrow>
   backend_delete db cid =
     (Inr (), db\<lparr>st_conversations := filter (\<lambda>c. conv_id c \<noteq> cid) (st_conversations db),
                  st_messages := filter (\<lambda>p. fst p \<noteq> cid) (st_messages db)\<rparr>)"
  by (simp add: backend_delete_def)

lemma backend_create_exists:
  "conversation_exists (snd (backend_create db new_id title now)) new_id"
  by (simp add: backend_create_def conversation_exists_def Let_def)

lemma backend_append_exists:
  "conversation_exists db cid \<Longrightarrow> conversation_exists (snd (backend_append db cid batch now)) cid"
  by (auto simp add: backend_append_def conversation_exists_def Let_def image_iff)

text \<open>
  Claim C7. For every conversation the store holds, a \<open>DELETE\<close> on its id succeeds, a
  following \<open>GET\<close> on the same id is not-found (the client's \<open>getConversation\<close> rejects),
  listing its messages is not-found, no stored message refers to the id any more, and
  the messages of every other conversation are as before. The endpoints are the ones
  modelled from the spec above; the client functions are the repository's.
\<close>

theorem delete_then_get_not_found:
  assumes "conversation_exists db cid"
  shows "fst (backend_delete db cid) = Inr () \<and>
         backend_get (snd (backend_delete db cid)) cid = Inl NotFound \<and>
         backend_list_messages (snd (backend_delete db cid)) cid = Inl NotFound \<and>
         cid \<notin> fst ` set (st_messages (snd (backend_delete db cid))) \<and>
         (\<forall>c. c \<noteq> cid \<longrightarrow>
            messages_of (snd (backend_delete db cid)) c = messages_of db c) \<and>
         snd (deleteConversation base cid (http_reply 204 (fst (backend_delete db cid)))) = Inr () \<and>
         snd (getConversation base cid
                (http_reply 200 (backend_get (snd (backend_delete db cid)) cid))) =
           Inl (JsError ''Failed to fetch conversation'')"
proof -
  let ?db = "snd (backend_delete db cid)"
  note deleted = backend_delete_known [OF assms]
  have gone: "\<not> conversation_exists ?db cid"
    by (auto simp add: deleted conversation_exists_def)
  have get: "backend_get ?db cid = Inl NotFound"
    by (simp add: deleted backend_get_def find_None_filtered)
  have list: "backend_list_messages ?db cid = Inl NotFound"
    using gone by (simp add: backend_list_messages_def)
  have cascade: "cid \<notin> fst ` set (st_messages ?db)"
    by (auto simp add: deleted)
  have others: "messages_of ?db c = messages_of db c" if "c \<noteq> cid" for c
  proof -
    have "filter (\<lambda>p. fst p = c) (filter (\<lambda>p. fst p \<noteq> cid) xs) = filter (\<lambda>p. fst p = c) xs"
      for xs :: "(string \<times> Message) list"
      using that by (induction xs) auto
    then show ?thesis
      by (simp add: deleted messages_of_def del: filter_filter)
  qed
  have client_delete:
    "snd (deleteConversation base cid (http_reply 204 (fst (backend_delete db cid)))) = Inr ()"
    by (simp add: deleted deleteConversation_def http_reply_def ok_def)
  have client_get:
    "snd (getConversation base cid (http_reply 200 (backend_get ?db cid))) =
       Inl (JsError ''Failed to fetch conversation'')"
    by (simp add: get getConversation_def http_reply_def settle_def ok_def)
  from get list cascade others client_delete client_get show ?thesis
    by (simp add: deleted)
qed

theorem delete_then_get_not_found_witness:
  "conversation_exists example_store ''c1'' \<and>
   map msg_content (messages_of example_store ''c1'') = [''Hello'', ''Hi there''] \<and>
   backend_get (snd (backend_delete example_store ''c1'')) ''c1'' = Inl NotFound \<and>
   ''c1'' \<notin> fst ` set (st_messages (snd (backend_delete example_store ''c1'')))"
proof -
  have known: "conversation_exists example_store ''c1''"
    unfolding example_store_def by (intro backend_append_exists backend_create_exists)
  have stored: "map msg_content (messages_of example_store ''c1'') = [''Hello'', ''Hi there'']"
    by (simp add: example_store_def backend_append_def backend_create_def conversation_exists_def
          messages_of_def Let_def)
  note gone = delete_then_get_not_found [OF known, of "''http://localhost:8000''"]
  from gone [THEN conjunct2, THEN conjunct1]
    gone [THEN conjunct2, THEN conjunct2, THEN conjunct2, THEN conjunct1] known stored
  show ?thesis
    by simp
qed

end
